theory Spec2Isabelle
  imports Main "HOL-Library.Word"
begin

unbundle bit_operations_syntax

section \<open>C object layout\<close>

text \<open>
  Both source files declare C structures whose byte layout is what the kernel reads.
  A declaration is kept as data: the scalar types the two files use, arrays, and
  structs and unions as lists of named members (an anonymous member has the empty name).
  Sizes and alignments are those of the LP64 ABI of Linux (x86-64, arm64): every scalar
  is aligned to its own size, a struct member is placed at the next multiple of its
  alignment, a union member at offset 0, and the size of a struct or union is rounded up
  to its alignment.
\<close>

datatype ctype =
    U8 | U16 | U32 | U64 | S32 | VoidPtr
  | Array ctype nat
  | Struct "(string \<times> ctype) list"
  | Union "(string \<times> ctype) list"

definition align_up :: "nat \<Rightarrow> nat \<Rightarrow> nat" where
  "align_up off a = ((off + a - 1) div a) * a"

fun alignof :: "ctype \<Rightarrow> nat" where
  "alignof U8 = 1"
| "alignof U16 = 2"
| "alignof U32 = 4"
| "alignof S32 = 4"
| "alignof U64 = 8"
| "alignof VoidPtr = 8"
| "alignof (Array t n) = alignof t"
| "alignof (Struct ms) = fold (\<lambda>m a. max a (alignof (snd m))) ms 1"
| "alignof (Union ms) = fold (\<lambda>m a. max a (alignof (snd m))) ms 1"

fun sizeof :: "ctype \<Rightarrow> nat" where
  "sizeof U8 = 1"
| "sizeof U16 = 2"
| "sizeof U32 = 4"
| "sizeof S32 = 4"
| "sizeof U64 = 8"
| "sizeof VoidPtr = 8"
| "sizeof (Array t n) = n * sizeof t"
| "sizeof (Struct ms) =
     align_up (fold (\<lambda>m off. align_up off (alignof (snd m)) + sizeof (snd m)) ms 0)
              (alignof (Struct ms))"
| "sizeof (Union ms) =
     align_up (fold (\<lambda>m sz. max sz (sizeof (snd m))) ms 0) (alignof (Union ms))"

text \<open>
  \<open>offsetof t f\<close> is C's \<open>offsetof(t, f)\<close>: the members are walked in declaration
  order with the running offset; a member named \<open>f\<close> answers with its own offset, an
  anonymous struct or union is searched for \<open>f\<close> and answers with its offset plus the
  inner one. \<open>None\<close> is the compile error for a member the type does not have.
\<close>

fun offsetof :: "ctype \<Rightarrow> string \<Rightarrow> nat option" where
  "offsetof (Struct ms) f =
     snd (fold (\<lambda>m st.
            let pos = align_up (fst st) (alignof (snd m)) in
            (pos + sizeof (snd m),
             case snd st of
               Some found \<Rightarrow> Some found
             | None \<Rightarrow>
                 if fst m = f then Some pos
                 else if fst m = [] then map_option (\<lambda>inner. pos + inner) (offsetof (snd m) f)
                 else None))
          ms (0, None))"
| "offsetof (Union ms) f =
     fold (\<lambda>m st.
            case st of
              Some found \<Rightarrow> Some found
            | None \<Rightarrow>
                if fst m = f then Some 0
                else if fst m = [] then offsetof (snd m) f
                else None)
          ms None"
| "offsetof t f = None"

text \<open>
  The layout of a struct as a table: each member's name, its offset, and its width in bits.
\<close>

fun layout_table :: "ctype \<Rightarrow> (string \<times> nat option \<times> nat) list" where
  "layout_table (Struct ms) =
     map (\<lambda>m. (fst m, offsetof (Struct ms) (fst m), 8 * sizeof (snd m))) ms"
| "layout_table t = []"


section \<open>The ABI verifier (test\_sqe\_offset.c)\<close>

text \<open>The structure \<open>struct io_uring_sqe\<close> as the file declares it, member by member.\<close>

definition io_uring_sqe :: ctype where
  "io_uring_sqe = Struct [
     (''opcode'', U8),
     (''flags'', U8),
     (''ioprio'', U16),
     (''fd'', S32),
     ([], Union [
        (''off'', U64),
        (''addr2'', U64),
        ([], Struct [(''cmd_op'', U32), (''__pad1'', U32)])]),
     ([], Union [
        (''addr'', U64),
        (''splice_off_in'', U64),
        (''__pad2'', VoidPtr)]),
     (''len'', U32),
     ([], Union [
        (''uring_cmd_flags'', U32),
        (''rw_flags'', U32)]),
     (''user_data'', U64),
     ([], Union [
        ([], Struct [
           ([], Union [(''buf_index'', U16), (''buf_group'', U16)]),
           (''personality'', U16),
           ([], Union [
              (''splice_fd_in'', S32),
              (''file_index'', U32),
              (''__pad3'', U32),
              ([], Struct [(''addr_len'', U16), (''__pad4'', U16)])])]),
        (''__pad5'', Array U64 2)])]"

text \<open>\<open>printf\<close>'s \<open>%zu\<close>: an unsigned value in decimal, no padding.\<close>

definition digit_char :: "nat \<Rightarrow> char" where
  "digit_char d = char_of (48 + d)"

fun show_nat :: "nat \<Rightarrow> string" where
  "show_nat n = (if n < 10 then [digit_char n] else show_nat (n div 10) @ [digit_char (n mod 10)])"

declare show_nat.simps [simp del]

text \<open>
  The names \<open>main\<close> passes to \<open>offsetof\<close>, in the order of its \<open>printf\<close> calls.
\<close>

definition reported_fields :: "string list" where
  "reported_fields =
     [''opcode'', ''fd'', ''off'', ''addr'', ''len'', ''uring_cmd_flags'',
      ''user_data'', ''buf_index'', ''splice_fd_in'']"

definition offset_line :: "string \<Rightarrow> string option" where
  "offset_line f =
     map_option (\<lambda>off. ''offsetof('' @ f @ ''): '' @ show_nat off) (offsetof io_uring_sqe f)"

text \<open>
  The two closing \<open>printf\<close> calls of \<open>main\<close> take no argument: the offset of
  \<open>addr3\<close> is written into the format strings. \<open>sqe128_addr3_offset\<close> is that
  literal; the first format string starts with a newline, hence the empty line.
\<close>

definition sqe128_addr3_offset :: nat where
  "sqe128_addr3_offset = 48"

definition sqe128_note :: "string list" where
  "sqe128_note =
     [[],
      ''*** With SQE128, addr3 would be at offset '' @ show_nat sqe128_addr3_offset @ '' ***'',
      ''*** C code uses &sqe->addr3 which is offset '' @ show_nat sqe128_addr3_offset @ '' ***'']"

text \<open>
  \<open>main\<close>: the lines written to standard output and the exit status. \<open>None\<close> stands
  for a program that does not compile (an \<open>offsetof\<close> of a member that does not exist).
\<close>

definition main :: "(string list \<times> int) option" where
  "main =
     (case those (map offset_line reported_fields) of
        None \<Rightarrow> None
      | Some offset_lines \<Rightarrow>
          Some ([''io_uring_sqe size: '' @ show_nat (sizeof io_uring_sqe)]
                @ offset_lines @ sqe128_note, 0))"

section \<open>The control commands (internal/uring/ublk\_control.c)\<close>

definition UBLK_CMD_ADD_DEV :: "32 word" where "UBLK_CMD_ADD_DEV = 0x04"
definition UBLK_CMD_SET_PARAMS :: "32 word" where "UBLK_CMD_SET_PARAMS = 0x05"
definition UBLK_CMD_START_DEV :: "32 word" where "UBLK_CMD_START_DEV = 0x06"
definition UBLK_CMD_STOP_DEV :: "32 word" where "UBLK_CMD_STOP_DEV = 0x10"
definition UBLK_CMD_DEL_DEV :: "32 word" where "UBLK_CMD_DEL_DEV = 0x02"
definition UBLK_CMD_GET_DEV_INFO :: "32 word" where "UBLK_CMD_GET_DEV_INFO = 0x01"
definition UBLK_CMD_GET_PARAMS :: "32 word" where "UBLK_CMD_GET_PARAMS = 0x09"

text \<open>\<open>'u'\<close>\<close>

definition UBLK_IOC_MAGIC :: "32 word" where "UBLK_IOC_MAGIC = 0x75"

text \<open>\<open>struct ublksrv_ctrl_cmd\<close>: the declaration, for its layout, and the record of its values.\<close>

definition ublksrv_ctrl_cmd_decl :: ctype where
  "ublksrv_ctrl_cmd_decl = Struct [
     (''dev_id'', U32),
     (''queue_id'', U16),
     (''len'', U16),
     (''addr'', U64),
     (''data'', U64),
     (''dev_path_len'', U16),
     (''pad'', U16),
     (''reserved'', U32)]"

record ublksrv_ctrl_cmd =
  dev_id :: "32 word"
  queue_id :: "16 word"
  len :: "16 word"
  addr :: "64 word"
  data :: "64 word"
  dev_path_len :: "16 word"
  pad :: "16 word"
  reserved :: "32 word"

text \<open>
  Linux's \<open>_IOWR(type, nr, size)\<close> of \<open>asm-generic/ioctl.h\<close>, which the file's
  \<open>UBLK_IOCTL_CMD\<close> expands to: direction read and write (3) in bits 30-31, the size of the
  argument in bits 16-29, the type in bits 8-15, the number in bits 0-7.
\<close>

definition IOWR :: "32 word \<Rightarrow> 32 word \<Rightarrow> nat \<Rightarrow> 32 word" where
  "IOWR ty nr sz = push_bit 30 3 OR push_bit 8 ty OR nr OR push_bit 16 (of_nat sz)"

definition UBLK_IOCTL_CMD :: "32 word \<Rightarrow> 32 word" where
  "UBLK_IOCTL_CMD cmd = IOWR UBLK_IOC_MAGIC cmd (sizeof ublksrv_ctrl_cmd_decl)"

text \<open>
  The kernel is outside the program. A primitive \<open>io\<close> answers one request
  \<open>(fd, request, command)\<close> in a kernel state with the value \<open>ioctl\<close> returns, the value
  of \<open>errno\<close> after the call, and the next kernel state. The world of a wrapper is the
  kernel state, \<open>errno\<close>, and the requests made so far, oldest first. The command
  is a local of the wrapper that is dropped on return, so what the kernel writes back into
  it is not kept.
\<close>

type_synonym 'k ioctl_prim =
  "'k \<Rightarrow> 32 word \<Rightarrow> 32 word \<Rightarrow> ublksrv_ctrl_cmd \<Rightarrow> 32 word \<times> 32 word \<times> 'k"

record 'k world =
  kstate :: 'k
  errno :: "32 word"
  requests :: "(32 word \<times> 32 word \<times> ublksrv_ctrl_cmd) list"

definition ioctl ::
  "'k ioctl_prim \<Rightarrow> 'k world \<Rightarrow> 32 word \<Rightarrow> 32 word \<Rightarrow> ublksrv_ctrl_cmd \<Rightarrow> 32 word \<times> 'k world" where
  "ioctl io w fd request cmd =
     (case io (kstate w) fd request cmd of
        (ret, e, k) \<Rightarrow>
          (ret, \<lparr>kstate = k, errno = e, requests = requests w @ [(fd, request, cmd)]\<rparr>))"

text \<open>
  The five wrappers. \<open>int\<close> is a 32-bit word read as two's complement, \<open>unsigned long\<close>
  and \<open>void *\<close> are 64-bit words; \<open>ret < 0\<close> is the signed comparison.
\<close>

definition ublk_add_dev ::
  "'k ioctl_prim \<Rightarrow> 'k world \<Rightarrow> 32 word \<Rightarrow> 32 word \<Rightarrow> 16 word \<Rightarrow> 16 word \<Rightarrow> 64 word
   \<Rightarrow> 32 word \<times> 'k world" where
  "ublk_add_dev io w fd dev_id' queue_id' len' addr' =
     (let cmd = \<lparr>dev_id = dev_id', queue_id = queue_id', len = len', addr = addr',
                 data = 0, dev_path_len = 0, pad = 0, reserved = 0\<rparr>
      in case ioctl io w fd (UBLK_IOCTL_CMD UBLK_CMD_ADD_DEV) cmd of
           (ret, w') \<Rightarrow> if sint ret < 0 then (- errno w', w') else (ret, w'))"

definition ublk_set_params ::
  "'k ioctl_prim \<Rightarrow> 'k world \<Rightarrow> 32 word \<Rightarrow> 32 word \<Rightarrow> 16 word \<Rightarrow> 64 word
   \<Rightarrow> 32 word \<times> 'k world" where
  "ublk_set_params io w fd dev_id' len' addr' =
     (let cmd = \<lparr>dev_id = dev_id', queue_id = 0xFFFF, len = len', addr = addr',
                 data = 0, dev_path_len = 0, pad = 0, reserved = 0\<rparr>
      in case ioctl io w fd (UBLK_IOCTL_CMD UBLK_CMD_SET_PARAMS) cmd of
           (ret, w') \<Rightarrow> if sint ret < 0 then (- errno w', w') else (ret, w'))"

definition ublk_start_dev ::
  "'k ioctl_prim \<Rightarrow> 'k world \<Rightarrow> 32 word \<Rightarrow> 32 word \<Rightarrow> 64 word \<Rightarrow> 32 word \<times> 'k world" where
  "ublk_start_dev io w fd dev_id' pid =
     (let cmd = \<lparr>dev_id = dev_id', queue_id = 0xFFFF, len = 0, addr = 0,
                 data = pid, dev_path_len = 0, pad = 0, reserved = 0\<rparr>
      in case ioctl io w fd (UBLK_IOCTL_CMD UBLK_CMD_START_DEV) cmd of
           (ret, w') \<Rightarrow> if sint ret < 0 then (- errno w', w') else (ret, w'))"

definition ublk_stop_dev ::
  "'k ioctl_prim \<Rightarrow> 'k world \<Rightarrow> 32 word \<Rightarrow> 32 word \<Rightarrow> 32 word \<times> 'k world" where
  "ublk_stop_dev io w fd dev_id' =
     (let cmd = \<lparr>dev_id = dev_id', queue_id = 0xFFFF, len = 0, addr = 0,
                 data = 0, dev_path_len = 0, pad = 0, reserved = 0\<rparr>
      in case ioctl io w fd (UBLK_IOCTL_CMD UBLK_CMD_STOP_DEV) cmd of
           (ret, w') \<Rightarrow> if sint ret < 0 then (- errno w', w') else (ret, w'))"

definition ublk_del_dev ::
  "'k ioctl_prim \<Rightarrow> 'k world \<Rightarrow> 32 word \<Rightarrow> 32 word \<Rightarrow> 32 word \<times> 'k world" where
  "ublk_del_dev io w fd dev_id' =
     (let cmd = \<lparr>dev_id = dev_id', queue_id = 0xFFFF, len = 0, addr = 0,
                 data = 0, dev_path_len = 0, pad = 0, reserved = 0\<rparr>
      in case ioctl io w fd (UBLK_IOCTL_CMD UBLK_CMD_DEL_DEV) cmd of
           (ret, w') \<Rightarrow> if sint ret < 0 then (- errno w', w') else (ret, w'))"

subsection \<open>Speaking of all five wrappers at once\<close>

text \<open>
  A call of one of the wrappers with its arguments after the file descriptor, and \<open>run\<close>,
  which makes the call. \<open>issued\<close> is the last request the kernel has received after the
  call, \<open>issued_cmd\<close> its command structure, \<open>answer\<close> what the primitive answers to it
  in the kernel state the call started from.
\<close>

datatype ublk_call =
    AddDev "32 word" "16 word" "16 word" "64 word"
  | SetParams "32 word" "16 word" "64 word"
  | StartDev "32 word" "64 word"
  | StopDev "32 word"
  | DelDev "32 word"

fun run :: "'k ioctl_prim \<Rightarrow> 'k world \<Rightarrow> 32 word \<Rightarrow> ublk_call \<Rightarrow> 32 word \<times> 'k world" where
  "run io w fd (AddDev d q l a) = ublk_add_dev io w fd d q l a"
| "run io w fd (SetParams d l a) = ublk_set_params io w fd d l a"
| "run io w fd (StartDev d p) = ublk_start_dev io w fd d p"
| "run io w fd (StopDev d) = ublk_stop_dev io w fd d"
| "run io w fd (DelDev d) = ublk_del_dev io w fd d"

definition issued ::
  "'k ioctl_prim \<Rightarrow> 'k world \<Rightarrow> 32 word \<Rightarrow> ublk_call \<Rightarrow> 32 word \<times> 32 word \<times> ublksrv_ctrl_cmd" where
  "issued io w fd c = last (requests (snd (run io w fd c)))"

definition issued_cmd ::
  "'k ioctl_prim \<Rightarrow> 'k world \<Rightarrow> 32 word \<Rightarrow> ublk_call \<Rightarrow> ublksrv_ctrl_cmd" where
  "issued_cmd io w fd c = snd (snd (issued io w fd c))"

definition answer ::
  "'k ioctl_prim \<Rightarrow> 'k world \<Rightarrow> 32 word \<Rightarrow> ublk_call \<Rightarrow> 32 word \<times> 32 word \<times> 'k" where
  "answer io w fd c =
     (case issued io w fd c of (fd', request, cmd) \<Rightarrow> io (kstate w) fd' request cmd)"

text \<open>
  Kernels to run the wrappers against: one accepts every request with 0, one rejects
  every request the way \<open>ioctl\<close> reports an error, returning -1 with \<open>errno\<close> set to
  a given number. Neither keeps state. \<open>boot\<close> is the world before any request.
\<close>

definition accepting :: "unit ioctl_prim" where
  "accepting k fd request cmd = (0, 0, k)"

definition rejecting :: "32 word \<Rightarrow> unit ioctl_prim" where
  "rejecting e k fd request cmd = (- 1, e, k)"

text \<open>A third kernel answers every request with a given result and a given \<open>errno\<close>.\<close>

definition replying :: "32 word \<Rightarrow> 32 word \<Rightarrow> unit ioctl_prim" where
  "replying ret e k fd request cmd = (ret, e, k)"

definition boot :: "unit world" where
  "boot = \<lparr>kstate = (), errno = 0, requests = []\<rparr>"

subsection \<open>The opcode table\<close>

text \<open>
  Modelled from the spec: \<open>opcode_for\<close>, which the specification describes and
  ublk\_control.c does not define (the file has the seven numeric constants only). It is
  "a fixed mapping, one entry per verb (add, set-parameters, start, stop, delete, get-info,
  get-parameters)" that "fails with UnknownVerb if asked for a verb outside this fixed
  set". A verb is given by its name in that list; the numbers are the file's constants.
\<close>

datatype codec_error = UnknownVerb

definition verbs :: "string list" where
  "verbs = [''add'', ''set-parameters'', ''start'', ''stop'', ''delete'', ''get-info'',
            ''get-parameters'']"

definition opcode_for :: "string \<Rightarrow> codec_error + 32 word" where
  "opcode_for verb =
     (if verb = ''add'' then Inr UBLK_CMD_ADD_DEV
      else if verb = ''set-parameters'' then Inr UBLK_CMD_SET_PARAMS
      else if verb = ''start'' then Inr UBLK_CMD_START_DEV
      else if verb = ''stop'' then Inr UBLK_CMD_STOP_DEV
      else if verb = ''delete'' then Inr UBLK_CMD_DEL_DEV
      else if verb = ''get-info'' then Inr UBLK_CMD_GET_DEV_INFO
      else if verb = ''get-parameters'' then Inr UBLK_CMD_GET_PARAMS
      else Inl UnknownVerb)"


section \<open>Layout facts\<close>

text \<open>The layout of \<open>struct ublksrv_ctrl_cmd\<close>, member by member.\<close>
lemma sizeof_ctrl_cmd: "sizeof ublksrv_ctrl_cmd_decl = 32"
  by code_simp
lemma off_dev_id: "offsetof ublksrv_ctrl_cmd_decl ''dev_id'' = Some 0" by code_simp
lemma off_queue_id: "offsetof ublksrv_ctrl_cmd_decl ''queue_id'' = Some 4" by code_simp
lemma off_len: "offsetof ublksrv_ctrl_cmd_decl ''len'' = Some 6" by code_simp
lemma off_addr: "offsetof ublksrv_ctrl_cmd_decl ''addr'' = Some 8" by code_simp
lemma off_data: "offsetof ublksrv_ctrl_cmd_decl ''data'' = Some 16" by code_simp
lemma off_dev_path_len: "offsetof ublksrv_ctrl_cmd_decl ''dev_path_len'' = Some 24" by code_simp
lemma off_pad: "offsetof ublksrv_ctrl_cmd_decl ''pad'' = Some 26" by code_simp
lemma off_reserved: "offsetof ublksrv_ctrl_cmd_decl ''reserved'' = Some 28" by code_simp

lemmas ctrl_cmd_offsets = off_dev_id off_queue_id off_len off_addr off_data off_dev_path_len
  off_pad off_reserved

lemma layout_ctrl_cmd:
  "layout_table ublksrv_ctrl_cmd_decl =
     [(''dev_id'', Some 0, 32),
      (''queue_id'', Some 4, 16),
      (''len'', Some 6, 16),
      (''addr'', Some 8, 64),
      (''data'', Some 16, 64),
      (''dev_path_len'', Some 24, 16),
      (''pad'', Some 26, 16),
      (''reserved'', Some 28, 32)]"
  unfolding ublksrv_ctrl_cmd_decl_def layout_table.simps
  by (simp del: offsetof.simps add: ctrl_cmd_offsets [unfolded ublksrv_ctrl_cmd_decl_def])

text \<open>The layout of \<open>struct io_uring_sqe\<close> at the members \<open>main\<close> reports.\<close>
lemma sizeof_sqe: "sizeof io_uring_sqe = 56"
  by code_simp
lemma sqe_opcode: "offsetof io_uring_sqe ''opcode'' = Some 0" by code_simp
lemma sqe_fd: "offsetof io_uring_sqe ''fd'' = Some 4" by code_simp
lemma sqe_off: "offsetof io_uring_sqe ''off'' = Some 8" by code_simp
lemma sqe_addr: "offsetof io_uring_sqe ''addr'' = Some 16" by code_simp
lemma sqe_len: "offsetof io_uring_sqe ''len'' = Some 24" by code_simp
lemma sqe_uring_cmd_flags: "offsetof io_uring_sqe ''uring_cmd_flags'' = Some 28" by code_simp
lemma sqe_user_data: "offsetof io_uring_sqe ''user_data'' = Some 32" by code_simp
lemma sqe_buf_index: "offsetof io_uring_sqe ''buf_index'' = Some 40" by code_simp
lemma sqe_splice_fd_in: "offsetof io_uring_sqe ''splice_fd_in'' = Some 44" by code_simp
lemma sqe_addr3: "offsetof io_uring_sqe ''addr3'' = None" by code_simp

lemmas sqe_offsets = sqe_opcode sqe_fd sqe_off sqe_addr sqe_len sqe_uring_cmd_flags
  sqe_user_data sqe_buf_index sqe_splice_fd_in

lemma main_output:
  "main =
     Some ([''io_uring_sqe size: 56'',
            ''offsetof(opcode): 0'',
            ''offsetof(fd): 4'',
            ''offsetof(off): 8'',
            ''offsetof(addr): 16'',
            ''offsetof(len): 24'',
            ''offsetof(uring_cmd_flags): 28'',
            ''offsetof(user_data): 32'',
            ''offsetof(buf_index): 40'',
            ''offsetof(splice_fd_in): 44'',
            [],
            ''*** With SQE128, addr3 would be at offset 48 ***'',
            ''*** C code uses &sqe->addr3 which is offset 48 ***''], 0)"
  by code_simp

section \<open>What each wrapper sends and returns\<close>

text \<open>The request numbers \<open>UBLK_IOCTL_CMD\<close> computes for the five verbs the wrappers use.\<close>
lemma request_numbers:
  "UBLK_IOCTL_CMD UBLK_CMD_ADD_DEV = 0xC0207504"
  "UBLK_IOCTL_CMD UBLK_CMD_SET_PARAMS = 0xC0207505"
  "UBLK_IOCTL_CMD UBLK_CMD_START_DEV = 0xC0207506"
  "UBLK_IOCTL_CMD UBLK_CMD_STOP_DEV = 0xC0207510"
  "UBLK_IOCTL_CMD UBLK_CMD_DEL_DEV = 0xC0207502"
  by code_simp+

text \<open>The request each wrapper hands to the kernel.\<close>
lemma issued_add:
  "issued io w fd (AddDev d q l a) =
     (fd, UBLK_IOCTL_CMD UBLK_CMD_ADD_DEV,
      \<lparr>dev_id = d, queue_id = q, len = l, addr = a, data = 0,
       dev_path_len = 0, pad = 0, reserved = 0\<rparr>)"
  by (simp add: issued_def ublk_add_dev_def ioctl_def Let_def split: prod.split)

lemma issued_set_params:
  "issued io w fd (SetParams d l a) =
     (fd, UBLK_IOCTL_CMD UBLK_CMD_SET_PARAMS,
      \<lparr>dev_id = d, queue_id = 0xFFFF, len = l, addr = a, data = 0,
       dev_path_len = 0, pad = 0, reserved = 0\<rparr>)"
  by (simp add: issued_def ublk_set_params_def ioctl_def Let_def split: prod.split)

lemma issued_start:
  "issued io w fd (StartDev d p) =
     (fd, UBLK_IOCTL_CMD UBLK_CMD_START_DEV,
      \<lparr>dev_id = d, queue_id = 0xFFFF, len = 0, addr = 0, data = p,
       dev_path_len = 0, pad = 0, reserved = 0\<rparr>)"
  by (simp add: issued_def ublk_start_dev_def ioctl_def Let_def split: prod.split)

lemma issued_stop:
  "issued io w fd (StopDev d) =
     (fd, UBLK_IOCTL_CMD UBLK_CMD_STOP_DEV,
      \<lparr>dev_id = d, queue_id = 0xFFFF, len = 0, addr = 0, data = 0,
       dev_path_len = 0, pad = 0, reserved = 0\<rparr>)"
  by (simp add: issued_def ublk_stop_dev_def ioctl_def Let_def split: prod.split)

lemma issued_del:
  "issued io w fd (DelDev d) =
     (fd, UBLK_IOCTL_CMD UBLK_CMD_DEL_DEV,
      \<lparr>dev_id = d, queue_id = 0xFFFF, len = 0, addr = 0, data = 0,
       dev_path_len = 0, pad = 0, reserved = 0\<rparr>)"
  by (simp add: issued_def ublk_del_dev_def ioctl_def Let_def split: prod.split)

lemmas issued_simps = issued_add issued_set_params issued_start issued_stop issued_del

text \<open>
  Every wrapper makes one request and turns the primitive's answer into its return value
  in the same way.
\<close>

lemma run_result:
  "fst (run io w fd c) =
     (case answer io w fd c of (ret, e, k) \<Rightarrow> if sint ret < 0 then - e else ret)"
  by (cases c)
     (simp_all add: answer_def issued_simps ublk_add_dev_def ublk_set_params_def
        ublk_start_dev_def ublk_stop_dev_def ublk_del_dev_def ioctl_def Let_def
        split: prod.split)

lemma run_requests:
  "requests (snd (run io w fd c)) = requests w @ [issued io w fd c]"
  by (cases c)
     (simp_all add: issued_def ublk_add_dev_def ublk_set_params_def
        ublk_start_dev_def ublk_stop_dev_def ublk_del_dev_def ioctl_def Let_def
        split: prod.split)

text \<open>Negating a positive \<open>errno\<close> does not overflow.\<close>

lemma sint_neg_errno:
  fixes e :: "32 word"
  assumes "0 < sint e"
  shows "sint (- e) = - sint e"
proof -
  have "sint e < 2 ^ 31"
    using sint_lt [of e] by simp
  with assms show ?thesis
    by (simp add: sint_word_ariths signed_take_bit_int_eq_self)
qed


section \<open>The claims\<close>

text \<open>
  Claim C1. The control command has a fixed binary layout: 32 bytes in all, with
  \<open>dev_id\<close> (32 bits) at offset 0, \<open>queue_id\<close> (16 bits) at 4, \<open>len\<close> (16 bits)
  at 6, \<open>addr\<close> (64 bits) at 8, \<open>data\<close> (64 bits) at 16, \<open>dev_path_len\<close>
  (16 bits) at 24, \<open>pad\<close> (16 bits) at 26 and \<open>reserved\<close> (32 bits) at 28; and the
  request of every operation, whatever its arguments, announces that size of 32 bytes to the
  kernel in its size bits.
\<close>

theorem ctrl_cmd_layout:
  "sizeof ublksrv_ctrl_cmd_decl = 32 \<and>
   layout_table ublksrv_ctrl_cmd_decl =
     [(''dev_id'', Some 0, 32),
      (''queue_id'', Some 4, 16),
      (''len'', Some 6, 16),
      (''addr'', Some 8, 64),
      (''data'', Some 16, 64),
      (''dev_path_len'', Some 24, 16),
      (''pad'', Some 26, 16),
      (''reserved'', Some 28, 32)]
   \<and> take_bit 14 (drop_bit 16 (fst (snd (issued io w fd c)))) = 32"
proof -
  have "take_bit 14 (drop_bit 16 (fst (snd (issued io w fd c)))) = 32"
    by (cases c) (simp_all add: issued_simps request_numbers)
  then show ?thesis
    using sizeof_ctrl_cmd layout_ctrl_cmd by (intro conjI)
qed

text \<open>
  Claim C2. The verifier reports a fixed table: \<open>opcode\<close> at 0, \<open>fd\<close> at 4, \<open>off\<close>
  at 8, \<open>addr\<close> at 16, \<open>len\<close> at 24, \<open>uring_cmd_flags\<close> at 28, \<open>user_data\<close> at
  32, \<open>buf_index\<close> at 40, \<open>splice_fd_in\<close> at 44, and a fixed total size, which for
  the structure as the file declares it is 56. The whole output of \<open>main\<close> is the first
  conjunct; it has no input, so a second run prints the same.
\<close>

theorem verifier_report:
  "main =
     Some ([''io_uring_sqe size: 56'',
            ''offsetof(opcode): 0'',
            ''offsetof(fd): 4'',
            ''offsetof(off): 8'',
            ''offsetof(addr): 16'',
            ''offsetof(len): 24'',
            ''offsetof(uring_cmd_flags): 28'',
            ''offsetof(user_data): 32'',
            ''offsetof(buf_index): 40'',
            ''offsetof(splice_fd_in): 44'',
            [],
            ''*** With SQE128, addr3 would be at offset 48 ***'',
            ''*** C code uses &sqe->addr3 which is offset 48 ***''], 0)
   \<and> sizeof io_uring_sqe = 56
   \<and> map (\<lambda>f. (f, offsetof io_uring_sqe f)) reported_fields =
       [(''opcode'', Some 0), (''fd'', Some 4), (''off'', Some 8), (''addr'', Some 16),
        (''len'', Some 24), (''uring_cmd_flags'', Some 28), (''user_data'', Some 32),
        (''buf_index'', Some 40), (''splice_fd_in'', Some 44)]"
proof -
  have "map (\<lambda>f. (f, offsetof io_uring_sqe f)) reported_fields =
       [(''opcode'', Some 0), (''fd'', Some 4), (''off'', Some 8), (''addr'', Some 16),
        (''len'', Some 24), (''uring_cmd_flags'', Some 28), (''user_data'', Some 32),
        (''buf_index'', Some 40), (''splice_fd_in'', Some 44)]"
    by (simp add: reported_fields_def sqe_offsets)
  then show ?thesis
    using main_output sizeof_sqe by (intro conjI)
qed

text \<open>
  Claim C3, as stated, fails. The wrappers take the error number from \<open>errno\<close>, not from
  the primitive's result. Where the primitive answers -1 and leaves \<open>errno\<close> at 0,
  \<open>start\<close> returns 0, a success, on a negative result; where it answers -16 and leaves
  \<open>errno\<close> at 22, \<open>start\<close> returns -22, so a result of -16 yields the error number 22
  and not 16.
\<close>

theorem negative_result_read_from_errno:
  "answer (replying (- 1) 0) boot 3 (StartDev 7 1234) = (- 1, 0, ())
   \<and> sint (- 1 :: 32 word) < 0
   \<and> sint (fst (run (replying (- 1) 0) boot 3 (StartDev 7 1234))) = 0
   \<and> answer (replying (- 16) 22) boot 3 (StartDev 7 1234) = (- 16, 22, ())
   \<and> sint (fst (run (replying (- 16) 22) boot 3 (StartDev 7 1234))) = - 22"
  by (simp add: answer_def issued_start replying_def ublk_start_dev_def ioctl_def Let_def)

text \<open>
  Claim C3, amended. For each of the five operations and each answer of the kernel
  primitive, a result together with the \<open>errno\<close> the call leaves: on a negative result
  the operation returns the negated \<open>errno\<close>, whatever the result was; where that
  \<open>errno\<close> is a positive number, as \<open>ioctl\<close> leaves it after an error, the return value
  is negative (a failure) and is exactly that number negated, so the number is carried
  unchanged. On a non-negative result the operation returns that result, which is
  non-negative (a success).
\<close>

theorem result_translation:
  assumes "answer io w fd c = (ret, e, k)"
  shows "(sint ret < 0 \<longrightarrow> fst (run io w fd c) = - e)
       \<and> (sint ret < 0 \<and> 0 < sint e \<longrightarrow>
            sint (fst (run io w fd c)) < 0 \<and> sint (fst (run io w fd c)) = - sint e)
       \<and> (0 \<le> sint ret \<longrightarrow> fst (run io w fd c) = ret \<and> 0 \<le> sint (fst (run io w fd c)))"
  using assms by (simp add: run_result sint_neg_errno)

text \<open>
  C3, amended, at concrete inputs: \<open>start\<close> against a kernel that rejects with
  \<open>errno\<close> 16 returns -16, and \<open>add\<close> against a kernel that accepts returns 0.
\<close>

theorem result_translation_witness:
  "answer (rejecting 16) boot 3 (StartDev 7 1234) = (- 1, 16, ())
   \<and> sint (- 1 :: 32 word) < 0 \<and> 0 < sint (16 :: 32 word)
   \<and> sint (fst (run (rejecting 16) boot 3 (StartDev 7 1234))) = - 16
   \<and> answer accepting boot 3 (AddDev 7 0xFFFF 0 0) = (0, 0, ())
   \<and> 0 \<le> sint (0 :: 32 word)
   \<and> fst (run accepting boot 3 (AddDev 7 0xFFFF 0 0)) = 0"
proof -
  have a: "answer (rejecting 16) boot 3 (StartDev 7 1234) = (- 1, 16, ())"
    by (simp add: answer_def issued_start rejecting_def)
  have b: "answer accepting boot 3 (AddDev 7 0xFFFF 0 0) = (0, 0, ())"
    by (simp add: answer_def issued_add accepting_def)
  show ?thesis
    using result_translation [OF a] result_translation [OF b] a b by simp
qed

text \<open>
  Claim C4. The claim puts \<open>addr3\<close>, the first member of the extended region, at the
  total size of the base structure. The file does not keep that. Its note gives \<open>addr3\<close>
  the offset 48, and 48 is where the members it enumerates end (\<open>splice_fd_in\<close>, four
  bytes at 44), as the byte ranges in its comments say; but the last union of the
  structure, which starts at 40, also holds \<open>__pad5\<close>, two 64-bit words, so it is 16
  bytes long and the structure the file declares ends at 56, not at 48. \<open>addr3\<close> is not
  a member of the base structure, as the claim says.
\<close>

theorem addr3_offset_is_not_base_size:
  "sqe128_addr3_offset = 48
   \<and> sizeof io_uring_sqe = 56
   \<and> sqe128_addr3_offset \<noteq> sizeof io_uring_sqe
   \<and> map_option (\<lambda>off. off + sizeof S32) (offsetof io_uring_sqe ''splice_fd_in'')
       = Some sqe128_addr3_offset
   \<and> offsetof io_uring_sqe ''addr3'' = None"
  by (simp add: sqe128_addr3_offset_def sizeof_sqe sqe_splice_fd_in sqe_addr3)

text \<open>
  Claim C5, as stated, fails: \<open>start\<close> for device 7 in a world where no request has been
  made (so no \<open>add\<close> came before) makes a kernel request, and with a kernel that accepts
  it returns 0, a success.
\<close>

theorem start_on_fresh_device_calls_kernel:
  "fst (ublk_start_dev accepting boot 3 7 1234) = 0
   \<and> requests boot = []
   \<and> length (requests (snd (ublk_start_dev accepting boot 3 7 1234))) = 1"
  by code_simp

text \<open>
  Claim C5, amended. \<open>start\<close> checks nothing before the kernel call: whatever was
  requested before, it makes exactly one request, the start request for the given device
  with the given process id, and what it returns is decided by the kernel's answer alone.
\<close>

theorem start_always_calls_kernel:
  "requests (snd (ublk_start_dev io w fd d p)) =
     requests w @
       [(fd, UBLK_IOCTL_CMD UBLK_CMD_START_DEV,
         \<lparr>dev_id = d, queue_id = 0xFFFF, len = 0, addr = 0, data = p,
          dev_path_len = 0, pad = 0, reserved = 0\<rparr>)]
   \<and> fst (ublk_start_dev io w fd d p) =
       (case io (kstate w) fd (UBLK_IOCTL_CMD UBLK_CMD_START_DEV)
               \<lparr>dev_id = d, queue_id = 0xFFFF, len = 0, addr = 0, data = p,
                dev_path_len = 0, pad = 0, reserved = 0\<rparr> of
          (ret, e, k) \<Rightarrow> if sint ret < 0 then - e else ret)"
  by (simp add: ublk_start_dev_def ioctl_def Let_def split: prod.split)

text \<open>
  Claim C6, as stated, fails for \<open>add\<close>: called with queue 0 it sends queue 0, not the
  sentinel.
\<close>

theorem add_queue_id_not_sentinel:
  "queue_id (issued_cmd accepting boot 3 (AddDev 7 0 0 0)) \<noteq> 0xFFFF"
  by (simp add: issued_cmd_def issued_add)

text \<open>
  Claim C6, amended. Set-parameters, start, stop and delete send the sentinel \<open>0xFFFF\<close>
  as \<open>queue_id\<close>; \<open>add\<close> sends the \<open>queue_id\<close> its caller passes.
\<close>

theorem queue_id_by_call:
  "queue_id (issued_cmd io w fd c) = (case c of AddDev d q l a \<Rightarrow> q | _ \<Rightarrow> 0xFFFF)"
  by (cases c) (simp_all add: issued_cmd_def issued_simps)

text \<open>
  Claim C7. \<open>opcode_for\<close> answers with \<open>UnknownVerb\<close> exactly for the names outside the
  seven verbs, and for the seven verbs, in the order add, set-parameters, start, stop,
  delete, get-info, get-parameters, with the numbers 4, 5, 6, 16, 2, 1 and 9.
\<close>

theorem opcode_for_total:
  "(opcode_for v = Inl UnknownVerb \<longleftrightarrow> v \<notin> set verbs)
   \<and> map opcode_for verbs =
       [Inr 0x04, Inr 0x05, Inr 0x06, Inr 0x10, Inr 0x02, Inr 0x01, Inr 0x09]"
  by (simp add: opcode_for_def verbs_def UBLK_CMD_ADD_DEV_def UBLK_CMD_SET_PARAMS_def
        UBLK_CMD_START_DEV_def UBLK_CMD_STOP_DEV_def UBLK_CMD_DEL_DEV_def
        UBLK_CMD_GET_DEV_INFO_def UBLK_CMD_GET_PARAMS_def)

text \<open>C7 at a verb of the set and at a name outside it.\<close>

theorem opcode_for_total_witness:
  "opcode_for ''start'' = Inr 0x06 \<and> ''start'' \<in> set verbs
   \<and> opcode_for ''resize'' = Inl UnknownVerb \<and> ''resize'' \<notin> set verbs"
  using opcode_for_total [of "''start''"] opcode_for_total [of "''resize''"]
  by (simp add: verbs_def opcode_for_def UBLK_CMD_START_DEV_def)

text \<open>
  Claim C8. Start, stop and delete carry no payload: the command each sends has
  \<open>len = 0\<close> and \<open>addr = 0\<close>.
\<close>

theorem no_payload_fields_zero:
  "len (issued_cmd io w fd (StartDev d p)) = 0 \<and> addr (issued_cmd io w fd (StartDev d p)) = 0
   \<and> len (issued_cmd io w fd (StopDev d)) = 0 \<and> addr (issued_cmd io w fd (StopDev d)) = 0
   \<and> len (issued_cmd io w fd (DelDev d)) = 0 \<and> addr (issued_cmd io w fd (DelDev d)) = 0"
  by (simp add: issued_cmd_def issued_simps)

text \<open>
  Claim C9. In the command any of the five operations sends, \<open>dev_path_len\<close>, \<open>pad\<close>
  and \<open>reserved\<close> are zero.
\<close>

theorem filler_fields_zero:
  "dev_path_len (issued_cmd io w fd c) = 0
   \<and> pad (issued_cmd io w fd c) = 0
   \<and> reserved (issued_cmd io w fd c) = 0"
  by (cases c) (simp_all add: issued_cmd_def issued_simps)

text \<open>
  Claim C10. \<open>add\<close> sends the \<open>queue_id\<close> of its caller unchanged, and it is the only
  operation that does not fix the field: the other four send \<open>0xFFFF\<close>.
\<close>

theorem add_queue_id_from_caller:
  "queue_id (issued_cmd io w fd (AddDev d q l a)) = q
   \<and> queue_id (issued_cmd io w fd (SetParams d l a)) = 0xFFFF
   \<and> queue_id (issued_cmd io w fd (StartDev d p)) = 0xFFFF
   \<and> queue_id (issued_cmd io w fd (StopDev d)) = 0xFFFF
   \<and> queue_id (issued_cmd io w fd (DelDev d)) = 0xFFFF"
  by (simp add: issued_cmd_def issued_simps)

end
